theory Spec2Isabelle
  imports Complex_Main "HOL-Library.Sublist"
begin

section \<open>The demand-response planning agent (backend/app/agents/planner.py)\<close>

text \<open>
  A shallow embedding of \<^verbatim>\<open>DRPlanningAgent\<close>. Conventions of the model:
  \<^item> Python \<^verbatim>\<open>float\<close> values (and JSON numbers) are exact real numbers; the
    binary rounding of IEEE arithmetic is not modelled, the decimal rounding done by
    \<^verbatim>\<open>round(x, n)\<close> is. Where the exact value is a decimal tie, the double the
    code holds lies just beside it and \<^verbatim>\<open>round\<close> may return the other neighbour; the
    properties of rounded values are therefore stated as bounds that hold for either
    neighbour, not as equations.
  \<^item> A JSON object with numeric values is a map from keys to numbers; \<^verbatim>\<open>d.get(k, v)\<close>
    is \<open>dict_get\<close>.
  \<^item> The wall clock read by \<^verbatim>\<open>datetime.now(timezone.utc)\<close> is the parameter \<open>now\<close>,
    in seconds since the epoch; every reading taken during one call gives this instant.
  \<^item> Exceptions are values of type \<open>error\<close>; a function that can raise returns
    \<open>error + 'a\<close>.
\<close>

subsection \<open>Data\<close>

datatype error = KeyError string | TypeError

datatype DRStrategy = COST_MINIMIZE | RELIABILITY | BALANCED | EMERGENCY

type_synonym json_obj = "string \<rightharpoonup> real"

definition dict_get :: "json_obj \<Rightarrow> string \<Rightarrow> real \<Rightarrow> real" where
  "dict_get d k v = (case d k of None \<Rightarrow> v | Some x \<Rightarrow> x)"

text \<open>
  A \<^verbatim>\<open>datetime\<close>: the planner reads its \<^verbatim>\<open>hour\<close> and subtracts the clock from it.
  Subtracting an aware datetime from a naive one raises \<^verbatim>\<open>TypeError\<close>.
\<close>

record datetime =
  hour :: int
  epoch_seconds :: real
  tz_aware :: bool

text \<open>A cohort of \<^verbatim>\<open>cohorts.json\<close>, with the fields the planner reads.\<close>

record cohort =
  id_field :: string
  name_field :: string
  segment :: string
  num_accounts :: int
  flex_kw_per_account :: real
  peak_hours :: "int list"
  baseline_acceptance_rate :: real
  comfort_limit_f :: real
  min_notice_hours :: real

text \<open>The files under \<^verbatim>\<open>data/\<close>; \<open>None\<close> is a file that cannot be opened or parsed.\<close>

record data_dir =
  current_snapshot_json :: "json_obj option"
  forecast_24h_json :: "json_obj option"
  cohorts_json :: "cohort list option"

text \<open>The dictionary returned by \<^verbatim>\<open>_load_ercot_data\<close>: each key may be absent.\<close>

record ercot_data =
  snapshot :: "json_obj option"
  forecast :: "json_obj option"
  error_key :: "string option"
  note_key :: "string option"

record situation =
  current_load_mw :: real
  current_price :: real
  reserves_mw :: real
  forecast_peak_mw :: real
  forecast_peak_hour :: real
  window_overlaps_peak :: bool
  stress_level :: string

subsection \<open>Loading\<close>

definition load_ercot_data :: "data_dir \<Rightarrow> ercot_data" where
  "load_ercot_data d =
     (case current_snapshot_json d of
        None \<Rightarrow> \<lparr>snapshot = None, forecast = None,
                 error_key = Some ''ERCOT data not available'',
                 note_key = Some ''Real ERCOT data files not found. Integration with ERCOT API required.''\<rparr>
      | Some s \<Rightarrow>
          (case forecast_24h_json d of
             None \<Rightarrow> \<lparr>snapshot = None, forecast = None,
                      error_key = Some ''ERCOT data not available'',
                      note_key = Some ''Real ERCOT data files not found. Integration with ERCOT API required.''\<rparr>
           | Some f \<Rightarrow> \<lparr>snapshot = Some s, forecast = Some f,
                        error_key = None, note_key = None\<rparr>))"

definition load_cohorts :: "data_dir \<Rightarrow> cohort list" where
  "load_cohorts d = (case cohorts_json d of None \<Rightarrow> [] | Some cs \<Rightarrow> cs)"

subsection \<open>Grid situation analyzer\<close>

definition calculate_stress_level :: "json_obj \<Rightarrow> json_obj \<Rightarrow> string" where
  "calculate_stress_level snap fc =
     (let load = dict_get snap ''system_load_mw'' 65000;
          reserves = dict_get snap ''reserves_mw'' 15000
      in if reserves < 5000 \<or> load > 75000 then ''critical''
         else if reserves < 10000 \<or> load > 70000 then ''high''
         else if reserves < 15000 \<or> load > 65000 then ''moderate''
         else ''low'')"

definition analyze_situation :: "ercot_data \<Rightarrow> datetime \<Rightarrow> datetime \<Rightarrow> error + situation" where
  "analyze_situation e window_start window_end =
     (case snapshot e of
        None \<Rightarrow> Inl (KeyError ''snapshot'')
      | Some snap \<Rightarrow>
          (case forecast e of
             None \<Rightarrow> Inl (KeyError ''forecast'')
           | Some fc \<Rightarrow>
               Inr \<lparr>current_load_mw = dict_get snap ''system_load_mw'' 65000,
                    current_price = dict_get snap ''price_per_mwh'' 45,
                    reserves_mw = dict_get snap ''reserves_mw'' 15000,
                    forecast_peak_mw = dict_get fc ''peak_load_mw'' 72000,
                    forecast_peak_hour = dict_get fc ''peak_hour'' 17,
                    window_overlaps_peak =
                      (dict_get fc ''peak_hour'' 17 \<ge> of_int (hour window_start) \<and>
                       dict_get fc ''peak_hour'' 17 \<le> of_int (hour window_end)),
                    stress_level = calculate_stress_level snap fc\<rparr>))"

subsection \<open>Target derivation\<close>

definition calculate_target_mw :: "situation \<Rightarrow> DRStrategy \<Rightarrow> real" where
  "calculate_target_mw sit strategy =
     (let base_target = 50 in
      if strategy = EMERGENCY then base_target * 3
      else if strategy = RELIABILITY then
        (if stress_level sit = ''critical'' then base_target * 2.5
         else if stress_level sit = ''high'' then base_target * 2
         else base_target * 1.5)
      else if strategy = COST_MINIMIZE then
        (let price = current_price sit in
         if price > 100 then base_target * 2
         else if price > 50 then base_target * 1.5
         else base_target)
      else base_target * 1.5)"

subsection \<open>Python built-ins used by the planner\<close>

text \<open>
  \<^verbatim>\<open>round(x, n)\<close> on a float: the nearest multiple of \<open>10\<^sup>-\<^sup>n\<close>, a tie going to the
  even one.
\<close>

definition round_half_even :: "real \<Rightarrow> int" where
  "round_half_even x =
     (let f = \<lfloor>x\<rfloor>; d = x - of_int f
      in if d < 1 / 2 then f
         else if 1 / 2 < d then f + 1
         else if even f then f else f + 1)"

definition py_round :: "real \<Rightarrow> nat \<Rightarrow> real" where
  "py_round x n = of_int (round_half_even (x * 10 ^ n)) / 10 ^ n"

text \<open>\<^verbatim>\<open>sub in s\<close> on strings.\<close>

definition str_in :: "string \<Rightarrow> string \<Rightarrow> bool" where
  "str_in sub s = sublist sub s"

subsection \<open>Cohort scorer\<close>

record factors =
  peak_alignment :: real
  acceptance :: real
  flex_mw :: real

record scored_cohort =
  cohort :: cohort
  score :: real
  factors :: factors
  available_mw :: real

definition hours_notice :: "datetime \<Rightarrow> real \<Rightarrow> error + real" where
  "hours_notice window_start now =
     (if tz_aware window_start then Inr ((epoch_seconds window_start - now) / 3600)
      else Inl TypeError)"

text \<open>The body of the scoring loop after the notice check, for one cohort.\<close>

definition score_cohort :: "cohort \<Rightarrow> datetime \<Rightarrow> datetime \<Rightarrow> DRStrategy \<Rightarrow> scored_cohort" where
  "score_cohort c window_start window_end strategy =
     (let window_hours = [hour window_start .. hour window_end];
          peak_overlap = card (set window_hours \<inter> set (peak_hours c));
          pa = (if window_hours \<noteq> [] then real peak_overlap / real (length window_hours) else 0);
          score1 = 0 + pa * 30;
          acc = baseline_acceptance_rate c;
          score2 = score1 + acc * 25;
          fmw = of_int (num_accounts c) * flex_kw_per_account c / 1000;
          score3 = score2 + min (fmw / 10) 20;
          score4 =
            (if strategy = COST_MINIMIZE then
               (if str_in ''commercial'' (segment c) \<or> str_in ''industrial'' (segment c)
                then score3 + 15 else score3)
             else if strategy = RELIABILITY then score3 + acc * 15
             else if strategy = EMERGENCY then
               (if min_notice_hours c \<le> 1 then score3 + 20 else score3)
             else score3)
      in \<lparr>cohort = c, score = score4,
          factors = \<lparr>peak_alignment = pa, acceptance = acc, flex_mw = fmw\<rparr>,
          available_mw = fmw * pa * acc\<rparr>)"

fun score_loop ::
  "cohort list \<Rightarrow> datetime \<Rightarrow> datetime \<Rightarrow> DRStrategy \<Rightarrow> real \<Rightarrow> scored_cohort list
     \<Rightarrow> error + scored_cohort list" where
  "score_loop [] window_start window_end strategy now scored = Inr scored"
| "score_loop (c # cs) window_start window_end strategy now scored =
     (case hours_notice window_start now of
        Inl e \<Rightarrow> Inl e
      | Inr h \<Rightarrow>
          if h < min_notice_hours c
          then score_loop cs window_start window_end strategy now scored
          else score_loop cs window_start window_end strategy now
                 (scored @ [score_cohort c window_start window_end strategy]))"

text \<open>
  \<^verbatim>\<open>scored.sort(key=..., reverse=True)\<close>: a stable sort, descending, equal scores
  staying in their order (the list is reversed, sorted ascending, reversed again).
\<close>

definition sort_by_score_desc :: "scored_cohort list \<Rightarrow> scored_cohort list" where
  "sort_by_score_desc scored = rev (sort_key score (rev scored))"

definition score_cohorts ::
  "cohort list \<Rightarrow> datetime \<Rightarrow> datetime \<Rightarrow> DRStrategy \<Rightarrow> situation \<Rightarrow> real
     \<Rightarrow> error + scored_cohort list" where
  "score_cohorts cohorts window_start window_end strategy sit now =
     (case score_loop cohorts window_start window_end strategy now [] of
        Inl e \<Rightarrow> Inl e
      | Inr scored \<Rightarrow> Inr (sort_by_score_desc scored))"

subsection \<open>Allocator\<close>

text \<open>
  The outreach message: which template \<^verbatim>\<open>_generate_message\<close> picks, with the numbers
  it formats into the text.
\<close>

datatype message =
    ResidentialEV real
  | ResidentialSolar real
  | CommercialHVAC real real
  | Industrial real
  | Generic real

definition generate_message :: "cohort \<Rightarrow> real \<Rightarrow> message" where
  "generate_message c tmw =
     (if str_in ''residential_ev'' (segment c) then ResidentialEV tmw
      else if str_in ''residential_solar'' (segment c) then ResidentialSolar tmw
      else if str_in ''commercial_hvac'' (segment c) then CommercialHVAC (comfort_limit_f c) tmw
      else if str_in ''industrial'' (segment c) then Industrial tmw
      else Generic tmw)"

record allocation =
  cohort_id :: string
  cohort_name :: string
  target_mw :: real
  predicted_mw :: real
  acceptance_probability :: real
  alloc_num_accounts :: int
  message_template :: message

text \<open>What one pass of the loop body computes for \<^verbatim>\<open>allocate\<close>.\<close>

definition allocate_amount :: "scored_cohort \<Rightarrow> real \<Rightarrow> DRStrategy \<Rightarrow> real \<Rightarrow> real" where
  "allocate_amount sc target strategy allocated =
     (let available = available_mw sc;
          needed = target - allocated;
          allocate = min available needed
      in if strategy = BALANCED then min allocate (target * 0.3) else allocate)"

definition make_allocation :: "scored_cohort \<Rightarrow> real \<Rightarrow> allocation" where
  "make_allocation sc allocate =
     (let c = cohort sc;
          predicted = allocate * baseline_acceptance_rate c
      in \<lparr>cohort_id = id_field c,
          cohort_name = name_field c,
          target_mw = py_round allocate 2,
          predicted_mw = py_round predicted 2,
          acceptance_probability =
            py_round (baseline_acceptance_rate c * peak_alignment (factors sc)) 3,
          alloc_num_accounts = num_accounts c,
          message_template = generate_message c allocate\<rparr>)"

text \<open>
  The loop over the scored cohorts, its state being the pair
  (\<^verbatim>\<open>allocations\<close>, \<^verbatim>\<open>allocated_mw\<close>); \<^verbatim>\<open>break\<close> returns the state.
\<close>

fun allocate_loop ::
  "scored_cohort list \<Rightarrow> real \<Rightarrow> DRStrategy \<Rightarrow> allocation list \<times> real
     \<Rightarrow> allocation list \<times> real" where
  "allocate_loop [] target strategy st = st"
| "allocate_loop (sc # scs) target strategy (allocations, allocated) =
     (if allocated \<ge> target then (allocations, allocated)
      else
        (let allocate = allocate_amount sc target strategy allocated
         in allocate_loop scs target strategy
              (allocations @ [make_allocation sc allocate], allocated + allocate)))"

definition allocate_mw :: "scored_cohort list \<Rightarrow> real \<Rightarrow> DRStrategy \<Rightarrow> allocation list" where
  "allocate_mw scored target strategy = fst (allocate_loop scored target strategy ([], 0))"

subsection \<open>Confidence estimator\<close>

definition calculate_confidence :: "allocation list \<Rightarrow> situation \<Rightarrow> real" where
  "calculate_confidence allocations sit =
     (if allocations = [] then 0
      else
        (let confidence = 0.7;
             confidence1 =
               (if stress_level sit = ''low'' then confidence + 0.1
                else if stress_level sit = ''critical'' then confidence - 0.1
                else confidence);
             avg_acceptance =
               sum_list (map acceptance_probability allocations) / real (length allocations);
             confidence2 = confidence1 * 0.7 + avg_acceptance * 0.3
         in py_round (min (max confidence2 0) 1) 3))"

subsection \<open>Plan assembler\<close>

definition get_applied_constraints :: "datetime \<Rightarrow> real \<Rightarrow> error + string list" where
  "get_applied_constraints window_start now =
     (case hours_notice window_start now of
        Inl e \<Rightarrow> Inl e
      | Inr h \<Rightarrow>
          Inr ((if h < 4 then [''Short notice period''] else []) @
               (if hour window_start \<ge> 17 \<and> hour window_start \<le> 20
                then [''Peak hour window''] else []) @
               [''Customer comfort limits enforced'', ''Max weekly events checked'']))"

text \<open>
  The plan dictionary, without its \<^verbatim>\<open>id\<close>, \<^verbatim>\<open>created_at\<close> and \<^verbatim>\<open>explanation\<close>
  texts.
\<close>

record plan =
  window_start_field :: datetime
  window_end_field :: datetime
  strategy_field :: DRStrategy
  status :: string
  target_mw_total :: real
  predicted_mw_total :: real
  cohort_allocations :: "allocation list"
  confidence_score :: real
  constraints_applied :: "string list"
  situation_summary :: situation

text \<open>
  \<^verbatim>\<open>create_plan\<close>. The optional arguments are options; \<^verbatim>\<open>if selected_cohorts\<close> and
  \<^verbatim>\<open>if not target_mw\<close> also take the empty list and 0 for absent.
\<close>

definition create_plan ::
  "data_dir \<Rightarrow> real \<Rightarrow> datetime \<Rightarrow> datetime \<Rightarrow> DRStrategy \<Rightarrow> real option \<Rightarrow> string list option
     \<Rightarrow> error + plan" where
  "create_plan d now window_start window_end strategy target_mw_arg selected_cohorts =
     (let ercot = load_ercot_data d;
          cohorts0 = load_cohorts d;
          cohorts =
            (case selected_cohorts of
               None \<Rightarrow> cohorts0
             | Some sel \<Rightarrow>
                 if sel = [] then cohorts0
                 else filter (\<lambda>c. id_field c \<in> set sel) cohorts0)
      in case analyze_situation ercot window_start window_end of
           Inl e \<Rightarrow> Inl e
         | Inr sit \<Rightarrow>
             (let target =
                    (case target_mw_arg of
                       None \<Rightarrow> calculate_target_mw sit strategy
                     | Some t \<Rightarrow> if t = 0 then calculate_target_mw sit strategy else t)
              in case score_cohorts cohorts window_start window_end strategy sit now of
                   Inl e \<Rightarrow> Inl e
                 | Inr scored \<Rightarrow>
                     (let allocations = allocate_mw scored target strategy;
                          confidence = calculate_confidence allocations sit
                      in case get_applied_constraints window_start now of
                           Inl e \<Rightarrow> Inl e
                         | Inr cons \<Rightarrow>
                             Inr \<lparr>window_start_field = window_start,
                                  window_end_field = window_end,
                                  strategy_field = strategy,
                                  status = ''proposed'',
                                  target_mw_total = target,
                                  predicted_mw_total =
                                    sum_list (map predicted_mw allocations),
                                  cohort_allocations = allocations,
                                  confidence_score = confidence,
                                  constraints_applied = cons,
                                  situation_summary = sit\<rparr>)))"

subsection \<open>Severity order\<close>

text \<open>The severity order of the specification: low < moderate < high < critical.\<close>

definition severity :: "string \<Rightarrow> nat" where
  "severity s =
     (if s = ''critical'' then 3 else if s = ''high'' then 2
      else if s = ''moderate'' then 1 else 0)"

subsection \<open>A worked example\<close>

text \<open>
  A window 17:00 to 19:00 that starts two hours after the clock reading 0, and four
  cohorts: one aligned with the window, one with no peak hour in it, one that needs
  48 hours of notice, one whose flexible load is entered as a negative number.
\<close>

definition ex_window_start :: datetime where
  "ex_window_start = \<lparr>hour = 17, epoch_seconds = 7200, tz_aware = True\<rparr>"

definition ex_window_end :: datetime where
  "ex_window_end = \<lparr>hour = 19, epoch_seconds = 14400, tz_aware = True\<rparr>"

definition ex_cohort_ev :: cohort where
  "ex_cohort_ev =
     \<lparr>id_field = ''ev'', name_field = ''EV owners'', segment = ''residential_ev'',
      num_accounts = 5000, flex_kw_per_account = 2, peak_hours = [17, 18, 19, 20],
      baseline_acceptance_rate = 0.5, comfort_limit_f = 2, min_notice_hours = 1\<rparr>"

definition ex_cohort_hvac :: cohort where
  "ex_cohort_hvac =
     \<lparr>id_field = ''hvac'', name_field = ''Offices'', segment = ''commercial_hvac'',
      num_accounts = 400, flex_kw_per_account = 50, peak_hours = [13, 14, 15],
      baseline_acceptance_rate = 0.8, comfort_limit_f = 2, min_notice_hours = 1\<rparr>"

definition ex_cohort_industrial :: cohort where
  "ex_cohort_industrial =
     \<lparr>id_field = ''ind'', name_field = ''Plants'', segment = ''industrial'',
      num_accounts = 10, flex_kw_per_account = 3000, peak_hours = [17, 18, 19],
      baseline_acceptance_rate = 0.9, comfort_limit_f = 2, min_notice_hours = 48\<rparr>"

definition ex_cohort_negative :: cohort where
  "ex_cohort_negative =
     \<lparr>id_field = ''neg'', name_field = ''Exporters'', segment = ''residential_solar'',
      num_accounts = 1000, flex_kw_per_account = - 20, peak_hours = [17, 18, 19],
      baseline_acceptance_rate = 0.5, comfort_limit_f = 2, min_notice_hours = 1\<rparr>"

definition ex_scored_ev :: scored_cohort where
  "ex_scored_ev =
     \<lparr>cohort = ex_cohort_ev, score = 43.5,
      factors = \<lparr>peak_alignment = 1, acceptance = 0.5, flex_mw = 10\<rparr>,
      available_mw = 5\<rparr>"

definition ex_scored_hvac :: scored_cohort where
  "ex_scored_hvac =
     \<lparr>cohort = ex_cohort_hvac, score = 22,
      factors = \<lparr>peak_alignment = 0, acceptance = 0.8, flex_mw = 20\<rparr>,
      available_mw = 0\<rparr>"

definition ex_scored_negative :: scored_cohort where
  "ex_scored_negative =
     \<lparr>cohort = ex_cohort_negative, score = 40.5,
      factors = \<lparr>peak_alignment = 1, acceptance = 0.5, flex_mw = - 20\<rparr>,
      available_mw = - 10\<rparr>"

definition ex_allocation_ev :: allocation where
  "ex_allocation_ev =
     \<lparr>cohort_id = ''ev'', cohort_name = ''EV owners'', target_mw = 5, predicted_mw = 2.5,
      acceptance_probability = 0.5, alloc_num_accounts = 5000,
      message_template = ResidentialEV 5\<rparr>"

definition ex_allocation_hvac :: allocation where
  "ex_allocation_hvac =
     \<lparr>cohort_id = ''hvac'', cohort_name = ''Offices'', target_mw = 0, predicted_mw = 0,
      acceptance_probability = 0, alloc_num_accounts = 400,
      message_template = CommercialHVAC 2 0\<rparr>"

definition ex_allocation_negative :: allocation where
  "ex_allocation_negative =
     \<lparr>cohort_id = ''neg'', cohort_name = ''Exporters'', target_mw = - 10, predicted_mw = - 5,
      acceptance_probability = 0.5, alloc_num_accounts = 1000,
      message_template = ResidentialSolar (- 10)\<rparr>"

subsection \<open>The specification's confidence rule\<close>

text \<open>
  The confidence rule in the words of the specification, before the rounding to three
  decimals: base 0.70, plus 0.10 under low stress, minus 0.10 under critical stress,
  blended 0.7 to 0.3 with the mean acceptance probability, clamped to [0,1].
\<close>

definition confidence_blend :: "real list \<Rightarrow> string \<Rightarrow> real" where
  "confidence_blend probs stress =
     (let base = 0.70 + (if stress = ''low'' then 0.10 else 0)
                      - (if stress = ''critical'' then 0.10 else 0);
          mean = sum_list probs / real (length probs)
      in max 0 (min 1 (0.7 * base + 0.3 * mean)))"

subsection \<open>The worked example, continued\<close>

text \<open>
  The grid files of the example: a strained grid (load 72000, reserves 6000, price 60,
  forecast peak at hour 18) and a calm one; the situation and the plan they lead to.
\<close>

definition ex_snapshot :: json_obj where
  "ex_snapshot = [''system_load_mw'' \<mapsto> 72000, ''reserves_mw'' \<mapsto> 6000, ''price_per_mwh'' \<mapsto> 60]"

definition ex_forecast :: json_obj where
  "ex_forecast = [''peak_load_mw'' \<mapsto> 76000, ''peak_hour'' \<mapsto> 18]"

definition ex_snapshot_calm :: json_obj where
  "ex_snapshot_calm = [''system_load_mw'' \<mapsto> 60000, ''reserves_mw'' \<mapsto> 16000]"

definition ex_situation :: situation where
  "ex_situation =
     \<lparr>current_load_mw = 72000, current_price = 60, reserves_mw = 6000,
      forecast_peak_mw = 76000, forecast_peak_hour = 18, window_overlaps_peak = True,
      stress_level = ''high''\<rparr>"

definition ex_data_dir :: data_dir where
  "ex_data_dir =
     \<lparr>current_snapshot_json = Some ex_snapshot, forecast_24h_json = Some ex_forecast,
      cohorts_json = Some [ex_cohort_industrial, ex_cohort_hvac, ex_cohort_ev]\<rparr>"

definition ex_plan :: plan where
  "ex_plan =
     \<lparr>window_start_field = ex_window_start, window_end_field = ex_window_end,
      strategy_field = BALANCED, status = ''proposed'', target_mw_total = 75,
      predicted_mw_total = 2.5,
      cohort_allocations = [ex_allocation_ev, ex_allocation_hvac],
      confidence_score = 0.565,
      constraints_applied =
        [''Short notice period'', ''Peak hour window'',
         ''Customer comfort limits enforced'', ''Max weekly events checked''],
      situation_summary = ex_situation\<rparr>"

section \<open>Properties\<close>

subsection \<open>Rounding\<close>

lemma round_half_even_upper: "of_int (round_half_even x) \<le> x + 1 / 2"
  unfolding round_half_even_def Let_def by (auto; linarith)

lemma round_half_even_lower: "x - 1 / 2 \<le> of_int (round_half_even x)"
  unfolding round_half_even_def Let_def by (auto; linarith)

lemma round_half_even_of_int: "round_half_even (of_int k) = k"
  unfolding round_half_even_def Let_def by simp

lemma round_half_even_mono:
  assumes "x \<le> y"
  shows "round_half_even x \<le> round_half_even y"
proof (cases "\<lfloor>x\<rfloor> = \<lfloor>y\<rfloor>")
  case True
  with assms have "x - of_int \<lfloor>x\<rfloor> \<le> y - of_int \<lfloor>y\<rfloor>" by simp
  with True show ?thesis
    unfolding round_half_even_def Let_def by auto
next
  case False
  with assms have lt: "\<lfloor>x\<rfloor> + 1 \<le> \<lfloor>y\<rfloor>"
    using floor_mono [OF assms] by linarith
  have "round_half_even x \<le> \<lfloor>x\<rfloor> + 1"
    unfolding round_half_even_def Let_def by auto
  moreover have "\<lfloor>y\<rfloor> \<le> round_half_even y"
    unfolding round_half_even_def Let_def by auto
  ultimately show ?thesis using lt by linarith
qed

lemma py_round_mono: "x \<le> y \<Longrightarrow> py_round x n \<le> py_round y n"
  unfolding py_round_def
  by (intro divide_right_mono of_int_le_iff [THEN iffD2] round_half_even_mono
      mult_right_mono) simp_all

lemma py_round_upper: "py_round x n \<le> x + 1 / (2 * 10 ^ n)"
proof -
  have "of_int (round_half_even (x * 10 ^ n)) \<le> x * 10 ^ n + 1 / 2"
    by (rule round_half_even_upper)
  then have "of_int (round_half_even (x * 10 ^ n)) / 10 ^ n \<le> (x * 10 ^ n + 1 / 2) / 10 ^ n"
    by (rule divide_right_mono) simp
  also have "\<dots> = x + 1 / (2 * 10 ^ n)"
    by (simp add: field_simps)
  finally show ?thesis by (simp add: py_round_def)
qed

lemma py_round_lower: "x - 1 / (2 * 10 ^ n) \<le> py_round x n"
proof -
  have "x * 10 ^ n - 1 / 2 \<le> of_int (round_half_even (x * 10 ^ n))"
    by (rule round_half_even_lower)
  then have "(x * 10 ^ n - 1 / 2) / 10 ^ n \<le> of_int (round_half_even (x * 10 ^ n)) / 10 ^ n"
    by (rule divide_right_mono) simp
  moreover have "(x * 10 ^ n - 1 / 2) / 10 ^ n = x - 1 / (2 * 10 ^ n)"
    by (simp add: field_simps)
  ultimately show ?thesis by (simp add: py_round_def)
qed

lemma py_round_close: "\<bar>py_round x 3 - x\<bar> \<le> 1 / 2000"
proof -
  have "py_round x 3 \<le> x + 1 / 2000"
    using py_round_upper [of x 3] by simp
  moreover have "x - 1 / 2000 \<le> py_round x 3"
    using py_round_lower [of x 3] by simp
  ultimately show ?thesis by linarith
qed

lemma py_round_zero: "py_round 0 n = 0"
  by (simp add: py_round_def round_half_even_def)

lemma py_round_one: "py_round 1 n = 1"
proof -
  have "round_half_even (10 ^ n) = 10 ^ n"
    using round_half_even_of_int [of "10 ^ n"] by simp
  then show ?thesis by (simp add: py_round_def)
qed

lemma py_round_decimal: "\<exists>k :: int. py_round x n = of_int k / 10 ^ n"
  by (auto simp: py_round_def)

subsection \<open>The analyzer\<close>

lemma severity_cascade:
  "severity (calculate_stress_level snap fc) =
     (let load = dict_get snap ''system_load_mw'' 65000;
          reserves = dict_get snap ''reserves_mw'' 15000
      in if reserves < 5000 \<or> load > 75000 then 3
         else if reserves < 10000 \<or> load > 70000 then 2
         else if reserves < 15000 \<or> load > 65000 then 1
         else 0)"
  by (simp add: calculate_stress_level_def severity_def Let_def)

lemma stress_level_values:
  "calculate_stress_level snap fc \<in> {''low'', ''moderate'', ''high'', ''critical''}"
  by (simp add: calculate_stress_level_def Let_def)

subsection \<open>The scoring loop\<close>

lemma cohort_score_cohort: "cohort (score_cohort c ws we st) = c"
  by (simp add: score_cohort_def Let_def)

lemma score_loop_aware:
  "tz_aware ws \<Longrightarrow>
   score_loop cs ws we st now acc =
     Inr (acc @ map (\<lambda>c. score_cohort c ws we st)
                  (filter (\<lambda>c. \<not> (epoch_seconds ws - now) / 3600 < min_notice_hours c) cs))"
  by (induction cs arbitrary: acc) (simp_all add: hours_notice_def)

lemma score_loop_naive:
  "\<not> tz_aware ws \<Longrightarrow> score_loop (c # cs) ws we st now acc = Inl TypeError"
  by (simp add: hours_notice_def)

lemma score_loop_cohorts:
  assumes "score_loop cs ws we st now [] = Inr scored"
  shows "cohort ` set scored =
           {c \<in> set cs. \<not> (epoch_seconds ws - now) / 3600 < min_notice_hours c}"
proof (cases "tz_aware ws")
  case True
  with assms have "scored = map (\<lambda>c. score_cohort c ws we st)
      (filter (\<lambda>c. \<not> (epoch_seconds ws - now) / 3600 < min_notice_hours c) cs)"
    by (simp add: score_loop_aware)
  then show ?thesis
    by (auto simp: cohort_score_cohort image_iff)
next
  case False
  have "cs = []"
  proof (cases cs)
    case Nil
    then show ?thesis .
  next
    case (Cons c cs')
    with assms score_loop_naive [OF False, of c cs' we st now "[]"] show ?thesis
      by simp
  qed
  with assms show ?thesis by simp
qed

lemma set_sort_by_score_desc: "set (sort_by_score_desc xs) = set xs"
  by (simp add: sort_by_score_desc_def)

lemma score_cohorts_cohorts:
  assumes "score_cohorts cs ws we st sit now = Inr scored"
  shows "cohort ` set scored =
           {c \<in> set cs. \<not> (epoch_seconds ws - now) / 3600 < min_notice_hours c}"
proof -
  from assms obtain scored0 where
    l: "score_loop cs ws we st now [] = Inr scored0" and s: "scored = sort_by_score_desc scored0"
    by (auto simp: score_cohorts_def split: sum.splits)
  show ?thesis
    using score_loop_cohorts [OF l] by (simp add: s set_sort_by_score_desc)
qed

lemma score_cohorts_aware:
  "tz_aware ws \<Longrightarrow> \<exists>scored. score_cohorts cs ws we st sit now = Inr scored"
  by (simp add: score_cohorts_def score_loop_aware)

lemma zero_peak_alignment_available:
  "set [hour ws .. hour we] \<inter> set (peak_hours c) = {} \<Longrightarrow>
   available_mw (score_cohort c ws we st) = 0"
  by (simp add: score_cohort_def Let_def)

subsection \<open>The allocation loop\<close>

lemma allocate_amount_le_needed: "allocate_amount sc t st a \<le> t - a"
  by (simp add: allocate_amount_def Let_def min_def)

lemma allocate_amount_balanced: "allocate_amount sc t BALANCED a \<le> t * 0.3"
  by (simp add: allocate_amount_def Let_def min_def)

lemma allocate_amount_nonneg_pos:
  "0 \<le> available_mw sc \<Longrightarrow> 0 < t \<Longrightarrow> a < t \<Longrightarrow> 0 \<le> allocate_amount sc t st a"
  by (simp add: allocate_amount_def Let_def)

lemma allocate_amount_zero:
  "available_mw sc = 0 \<Longrightarrow> 0 < t \<Longrightarrow> a < t \<Longrightarrow> allocate_amount sc t st a = 0"
  by (simp add: allocate_amount_def Let_def)

lemma allocate_loop_done: "t \<le> a \<Longrightarrow> allocate_loop scs t st (as, a) = (as, a)"
  by (cases scs) simp_all

lemma allocate_loop_step:
  "a < t \<Longrightarrow> allocate_loop (sc # scs) t st (as, a) =
     allocate_loop scs t st
       (as @ [make_allocation sc (allocate_amount sc t st a)], a + allocate_amount sc t st a)"
  by (simp add: Let_def)

declare allocate_loop.simps(2) [simp del]

lemma allocate_loop_fst:
  "fst (allocate_loop scs t st (as, a)) = as @ fst (allocate_loop scs t st ([], a))"
proof (induction scs arbitrary: as a)
  case Nil
  show ?case by simp
next
  case (Cons sc scs)
  show ?case
  proof (cases "a < t")
    case True
    let ?al = "allocate_amount sc t st a"
    let ?m = "make_allocation sc ?al"
    have "fst (allocate_loop (sc # scs) t st (as, a)) =
          (as @ [?m]) @ fst (allocate_loop scs t st ([], a + ?al))"
      using True Cons.IH [of "as @ [?m]" "a + ?al"] by (simp add: allocate_loop_step)
    moreover have "fst (allocate_loop (sc # scs) t st ([], a)) =
          [?m] @ fst (allocate_loop scs t st ([], a + ?al))"
      using True Cons.IH [of "[?m]" "a + ?al"] by (simp add: allocate_loop_step)
    ultimately show ?thesis by simp
  next
    case False
    then show ?thesis by (simp add: allocate_loop_done)
  qed
qed

text \<open>The allocations made from a running total \<open>a\<close>, as a list.\<close>

lemma allocs_from_Cons:
  "a < t \<Longrightarrow> fst (allocate_loop (sc # scs) t st ([], a)) =
     make_allocation sc (allocate_amount sc t st a) #
     fst (allocate_loop scs t st ([], a + allocate_amount sc t st a))"
  using allocate_loop_fst [of scs t st "[make_allocation sc (allocate_amount sc t st a)]"
      "a + allocate_amount sc t st a"]
  by (simp add: allocate_loop_step)

lemma allocs_from_done: "t \<le> a \<Longrightarrow> fst (allocate_loop scs t st ([], a)) = []"
  by (simp add: allocate_loop_done)

lemma target_mw_make_allocation: "target_mw (make_allocation sc x) = py_round x 2"
  by (simp add: make_allocation_def Let_def)

lemma predicted_mw_make_allocation:
  "predicted_mw (make_allocation sc x) = py_round (x * baseline_acceptance_rate (cohort sc)) 2"
  by (simp add: make_allocation_def Let_def)

lemma cohort_id_make_allocation: "cohort_id (make_allocation sc x) = id_field (cohort sc)"
  by (simp add: make_allocation_def Let_def)

lemma sum_target_bound:
  "a \<le> t \<Longrightarrow>
   sum_list (map target_mw (fst (allocate_loop scs t st ([], a)))) \<le>
     (t - a) + real (length (fst (allocate_loop scs t st ([], a)))) / 200"
proof (induction scs arbitrary: a)
  case Nil
  then show ?case by simp
next
  case (Cons sc scs)
  show ?case
  proof (cases "a < t")
    case True
    let ?al = "allocate_amount sc t st a"
    let ?rest = "fst (allocate_loop scs t st ([], a + ?al))"
    have le: "a + ?al \<le> t"
      using allocate_amount_le_needed [of sc t st a] by linarith
    have ih: "sum_list (map target_mw ?rest) \<le> (t - (a + ?al)) + real (length ?rest) / 200"
      by (rule Cons.IH [OF le])
    have r: "py_round ?al 2 \<le> ?al + 1 / 200"
      using py_round_upper [of ?al 2] by simp
    have "sum_list (map target_mw (fst (allocate_loop (sc # scs) t st ([], a)))) =
          py_round ?al 2 + sum_list (map target_mw ?rest)"
      by (simp add: allocs_from_Cons [OF True] target_mw_make_allocation)
    moreover have "real (length (fst (allocate_loop (sc # scs) t st ([], a)))) =
          1 + real (length ?rest)"
      by (simp add: allocs_from_Cons [OF True])
    ultimately show ?thesis
      using ih r by linarith
  next
    case False
    then show ?thesis using Cons.prems by (simp add: allocs_from_done)
  qed
qed

lemma balanced_cap:
  "x \<in> set (fst (allocate_loop scs t BALANCED ([], a))) \<Longrightarrow> target_mw x \<le> py_round (t * 0.3) 2"
proof (induction scs arbitrary: a)
  case Nil
  then show ?case by simp
next
  case (Cons sc scs)
  show ?case
  proof (cases "a < t")
    case True
    let ?al = "allocate_amount sc t BALANCED a"
    from Cons.prems True
    consider "x = make_allocation sc ?al"
      | "x \<in> set (fst (allocate_loop scs t BALANCED ([], a + ?al)))"
      by (auto simp: allocs_from_Cons)
    then show ?thesis
    proof cases
      case 1
      then show ?thesis
        using py_round_mono [OF allocate_amount_balanced [of sc t a], of 2]
        by (simp add: target_mw_make_allocation)
    next
      case 2
      then show ?thesis by (rule Cons.IH)
    qed
  next
    case False
    with Cons.prems show ?thesis by (simp add: allocs_from_done)
  qed
qed

lemma allocs_from_nth:
  "i < length (fst (allocate_loop scs t st ([], a))) \<Longrightarrow>
   i < length scs \<and>
   (\<exists>a'. a' < t \<and>
      fst (allocate_loop scs t st ([], a)) ! i =
        make_allocation (scs ! i) (allocate_amount (scs ! i) t st a'))"
proof (induction scs arbitrary: a i)
  case Nil
  then show ?case by simp
next
  case (Cons sc scs)
  show ?case
  proof (cases "a < t")
    case True
    note eq = allocs_from_Cons [OF True, of sc scs st]
    show ?thesis
    proof (cases i)
      case 0
      with True show ?thesis by (auto simp: eq)
    next
      case (Suc j)
      with Cons.prems have "j < length (fst (allocate_loop scs t st
          ([], a + allocate_amount sc t st a)))"
        by (simp add: eq)
      from Cons.IH [OF this] show ?thesis
        by (simp add: eq Suc)
    qed
  next
    case False
    with Cons.prems show ?thesis by (simp add: allocs_from_done)
  qed
qed

lemma allocations_target_pos:
  assumes "i < length (allocate_mw scored t st)"
  shows "0 < t"
proof (rule ccontr)
  assume "\<not> 0 < t"
  then have "allocate_mw scored t st = []"
    by (simp add: allocate_mw_def allocs_from_done)
  with assms show False by simp
qed

lemma allocate_loop_append:
  "allocate_loop (xs @ ys) t st s = allocate_loop ys t st (allocate_loop xs t st s)"
proof (induction xs arbitrary: s)
  case Nil
  show ?case by simp
next
  case (Cons x xs)
  obtain as a where s: "s = (as, a)" by (cases s)
  show ?case
  proof (cases "a < t")
    case True
    then show ?thesis by (simp add: s allocate_loop_step Cons.IH)
  next
    case False
    then show ?thesis by (simp add: s allocate_loop_done)
  qed
qed

lemma allocate_loop_no_break:
  "snd (allocate_loop scs t st (as, a)) < t \<Longrightarrow>
   length (fst (allocate_loop scs t st (as, a))) = length as + length scs"
proof (induction scs arbitrary: as a)
  case Nil
  show ?case by simp
next
  case (Cons sc scs)
  show ?case
  proof (cases "a < t")
    case True
    with Cons.prems Cons.IH [of "as @ [make_allocation sc (allocate_amount sc t st a)]"
        "a + allocate_amount sc t st a"]
    show ?thesis by (simp add: allocate_loop_step)
  next
    case False
    with Cons.prems show ?thesis by (simp add: allocate_loop_done)
  qed
qed

lemma running_total_below_target_pos:
  assumes "snd (allocate_loop scs t st ([], 0)) < t"
  shows "0 < t"
proof (rule ccontr)
  assume "\<not> 0 < t"
  then have "allocate_loop scs t st ([], 0) = ([], 0)"
    by (simp add: allocate_loop_done)
  with assms \<open>\<not> 0 < t\<close> show False by simp
qed

subsection \<open>The confidence estimator\<close>

lemma calculate_confidence_blend:
  assumes "allocations \<noteq> []"
  shows "calculate_confidence allocations sit =
     py_round (confidence_blend (map acceptance_probability allocations) (stress_level sit)) 3"
proof -
  have clamp: "min (max x 0) 1 = max 0 (min 1 x)" for x :: real
    by (simp add: min_def max_def)
  show ?thesis
    using assms
    by (simp add: calculate_confidence_def confidence_blend_def Let_def clamp mult.commute)
qed

lemma sum_list_nonneg_real: "(\<forall>x \<in> set xs. 0 \<le> (x :: real)) \<Longrightarrow> 0 \<le> sum_list xs"
  by (induction xs) auto

lemma confidence_positive:
  assumes "allocations \<noteq> []"
    and "\<forall>a \<in> set allocations. 0 \<le> acceptance_probability a"
  shows "0 < calculate_confidence allocations sit"
proof -
  let ?avg = "sum_list (map acceptance_probability allocations) / real (length allocations)"
  define c1 :: real where
    "c1 = (if stress_level sit = ''low'' then 0.7 + 0.1
           else if stress_level sit = ''critical'' then 0.7 - 0.1 else 0.7)"
  have "0 \<le> sum_list (map acceptance_probability allocations)"
    using assms(2) by (intro sum_list_nonneg_real) auto
  then have avg: "0 \<le> ?avg" by simp
  have c1: "3 / 5 \<le> c1" by (simp add: c1_def)
  define avg where "avg = ?avg"
  have "21 / 50 \<le> c1 * (7 / 10) + avg * (3 / 10)"
    using avg c1 unfolding avg_def [symmetric] by linarith
  then have "21 / 50 \<le> c1 * (7 / 10) + ?avg * (3 / 10)"
    by (simp add: avg_def)
  define x where "x = min (max (c1 * (7 / 10) + ?avg * (3 / 10)) 0) 1"
  have xge: "21 / 50 \<le> x"
    using \<open>21 / 50 \<le> c1 * (7 / 10) + ?avg * (3 / 10)\<close> by (simp add: x_def)
  have "x - 1 / 2000 \<le> py_round x 3"
    using py_round_lower [of x 3] by simp
  then have pos: "0 < py_round x 3"
    using xge by linarith
  have "calculate_confidence allocations sit = py_round x 3"
    using assms(1) by (simp add: calculate_confidence_def c1_def x_def Let_def)
  then show ?thesis using pos by simp
qed

lemma confidence_range:
  "0 \<le> calculate_confidence allocations sit \<and> calculate_confidence allocations sit \<le> 1"
proof (cases "allocations = []")
  case True
  then show ?thesis by (simp add: calculate_confidence_def)
next
  case False
  then obtain x where x: "calculate_confidence allocations sit = py_round (min (max x 0) 1) 3"
    by (simp add: calculate_confidence_def Let_def)
  have "py_round 0 3 \<le> py_round (min (max x 0) 1) 3"
    by (rule py_round_mono) simp
  moreover have "py_round (min (max x 0) 1) 3 \<le> py_round 1 3"
    by (rule py_round_mono) simp
  ultimately show ?thesis
    by (simp add: x py_round_zero py_round_one)
qed

lemma confidence_decimal: "\<exists>k :: int. calculate_confidence allocations sit = of_int k / 1000"
proof (cases "allocations = []")
  case True
  then have "calculate_confidence allocations sit = of_int 0 / 1000"
    by (simp add: calculate_confidence_def)
  then show ?thesis by blast
next
  case False
  then obtain x where x: "calculate_confidence allocations sit = py_round x 3"
    by (simp add: calculate_confidence_def Let_def)
  from py_round_decimal [of x 3] show ?thesis by (simp add: x)
qed

subsection \<open>The plan assembler\<close>

lemma create_plan_derived_target:
  assumes "create_plan d now ws we st None sel = Inr p"
  shows "target_mw_total p = calculate_target_mw (situation_summary p) st"
  using assms
  by (auto simp: create_plan_def Let_def split: sum.splits)

subsection \<open>The worked example, evaluated\<close>

lemma card_inter_set: "card (set xs \<inter> set ys) = length (remdups (filter (\<lambda>x. x \<in> set ys) xs))"
proof -
  have "set xs \<inter> set ys = set (remdups (filter (\<lambda>x. x \<in> set ys) xs))" by auto
  then show ?thesis by (simp only: distinct_card [OF distinct_remdups])
qed

lemma ex_window_hours: "[17 .. 19] = [17, 18, 19 :: int]"
  by (simp add: upto_rec_numeral)

lemma score_ex_ev:
  "score_cohort ex_cohort_ev ex_window_start ex_window_end BALANCED = ex_scored_ev"
  by (simp add: score_cohort_def ex_cohort_ev_def ex_window_start_def ex_window_end_def
      ex_scored_ev_def Let_def ex_window_hours card_inter_set)

lemma score_ex_hvac:
  "score_cohort ex_cohort_hvac ex_window_start ex_window_end BALANCED = ex_scored_hvac"
  by (simp add: score_cohort_def ex_cohort_hvac_def ex_window_start_def ex_window_end_def
      ex_scored_hvac_def Let_def ex_window_hours card_inter_set)

lemma score_ex_negative:
  "score_cohort ex_cohort_negative ex_window_start ex_window_end BALANCED = ex_scored_negative"
  by (simp add: score_cohort_def ex_cohort_negative_def ex_window_start_def ex_window_end_def
      ex_scored_negative_def Let_def ex_window_hours card_inter_set)

lemma ex_hours_notice: "hours_notice ex_window_start 0 = Inr 2"
  by (simp add: hours_notice_def ex_window_start_def)

lemma score_cohorts_ex:
  "score_cohorts [ex_cohort_industrial, ex_cohort_hvac, ex_cohort_ev]
     ex_window_start ex_window_end BALANCED sit 0 = Inr [ex_scored_ev, ex_scored_hvac]"
proof -
  have "score_loop [ex_cohort_industrial, ex_cohort_hvac, ex_cohort_ev]
     ex_window_start ex_window_end BALANCED 0 [] = Inr [ex_scored_hvac, ex_scored_ev]"
    by (simp add: ex_hours_notice score_ex_ev score_ex_hvac)
      (simp add: ex_cohort_industrial_def ex_cohort_hvac_def ex_cohort_ev_def)
  moreover have "sort_by_score_desc [ex_scored_hvac, ex_scored_ev] = [ex_scored_ev, ex_scored_hvac]"
    by (simp add: sort_by_score_desc_def) (simp add: ex_scored_ev_def ex_scored_hvac_def)
  ultimately show ?thesis by (simp add: score_cohorts_def)
qed

lemma py_round_numeral_examples:
  "py_round 5 2 = 5" "py_round 2.5 2 = 2.5" "py_round (- 10) 2 = - 10" "py_round (- 5) 2 = - 5"
  "py_round (1 / 2) 3 = 1 / 2" "py_round 15 2 = 15" "py_round (5 / 2) 2 = 5 / 2"
  by (simp_all add: py_round_def round_half_even_def)

lemma py_round_565: "py_round (113 / 200) 3 = 113 / 200"
  by (simp add: py_round_def round_half_even_def)

lemma allocate_mw_ex:
  "allocate_mw [ex_scored_ev, ex_scored_hvac] 50 BALANCED = [ex_allocation_ev, ex_allocation_hvac]"
  by (simp add: allocate_mw_def allocate_loop_step allocate_loop_done allocate_amount_def
      make_allocation_def generate_message_def str_in_def sublist_code Let_def
      ex_scored_ev_def ex_scored_hvac_def ex_cohort_ev_def ex_cohort_hvac_def
      ex_allocation_ev_def ex_allocation_hvac_def
      py_round_zero py_round_numeral_examples)

lemma allocate_mw_ex_75:
  "allocate_mw [ex_scored_ev, ex_scored_hvac] 75 BALANCED = [ex_allocation_ev, ex_allocation_hvac]"
  by (simp add: allocate_mw_def allocate_loop_step allocate_loop_done allocate_amount_def
      make_allocation_def generate_message_def str_in_def sublist_code Let_def
      ex_scored_ev_def ex_scored_hvac_def ex_cohort_ev_def ex_cohort_hvac_def
      ex_allocation_ev_def ex_allocation_hvac_def
      py_round_zero py_round_numeral_examples)

lemma allocate_mw_ex_negative:
  "allocate_mw [ex_scored_negative] 50 BALANCED = [ex_allocation_negative]"
  by (simp add: allocate_mw_def allocate_loop_step allocate_loop_done allocate_amount_def
      make_allocation_def generate_message_def str_in_def sublist_code Let_def
      ex_scored_negative_def ex_cohort_negative_def ex_allocation_negative_def
      py_round_numeral_examples)

lemma allocate_mw_ex_mixed:
  "allocate_mw [ex_scored_ev, ex_scored_negative] 50 BALANCED =
     [ex_allocation_ev, ex_allocation_negative]"
  by (simp add: allocate_mw_def allocate_loop_step allocate_loop_done allocate_amount_def
      make_allocation_def generate_message_def str_in_def sublist_code Let_def
      ex_scored_ev_def ex_scored_negative_def ex_cohort_ev_def ex_cohort_negative_def
      ex_allocation_ev_def ex_allocation_negative_def
      py_round_numeral_examples)

lemma running_total_ex: "allocate_loop [ex_scored_ev] 50 BALANCED ([], 0) = ([ex_allocation_ev], 5)"
  by (simp add: allocate_loop_step allocate_amount_def
      make_allocation_def generate_message_def str_in_def sublist_code Let_def
      ex_scored_ev_def ex_cohort_ev_def ex_allocation_ev_def
      py_round_numeral_examples)

lemma ex_stress: "calculate_stress_level ex_snapshot ex_forecast = ''high''"
  by (simp add: calculate_stress_level_def ex_snapshot_def dict_get_def)

lemma ex_stress_calm: "calculate_stress_level ex_snapshot_calm ex_forecast = ''low''"
  by (simp add: calculate_stress_level_def ex_snapshot_calm_def dict_get_def)

lemma analyze_situation_ex:
  "analyze_situation (load_ercot_data ex_data_dir) ex_window_start ex_window_end = Inr ex_situation"
  by (simp add: analyze_situation_def load_ercot_data_def ex_data_dir_def ex_stress)
    (simp add: ex_situation_def ex_snapshot_def ex_forecast_def dict_get_def
      ex_window_start_def ex_window_end_def)

lemma confidence_ex:
  "calculate_confidence [ex_allocation_ev, ex_allocation_hvac] ex_situation = 0.565"
  by (simp add: calculate_confidence_def ex_allocation_ev_def ex_allocation_hvac_def
      ex_situation_def Let_def py_round_565)

lemma confidence_blend_ex:
  "confidence_blend (map acceptance_probability [ex_allocation_ev, ex_allocation_hvac])
     (stress_level ex_situation) = 0.565"
  by (simp add: confidence_blend_def ex_allocation_ev_def ex_allocation_hvac_def
      ex_situation_def Let_def)

lemma ex_constraints:
  "get_applied_constraints ex_window_start 0 =
     Inr [''Short notice period'', ''Peak hour window'',
          ''Customer comfort limits enforced'', ''Max weekly events checked'']"
  by (simp add: get_applied_constraints_def ex_hours_notice) (simp add: ex_window_start_def)

lemma ex_target: "calculate_target_mw ex_situation BALANCED = 75"
  by (simp add: calculate_target_mw_def)

lemma create_plan_ex:
  "create_plan ex_data_dir 0 ex_window_start ex_window_end BALANCED None None = Inr ex_plan"
proof -
  have c: "load_cohorts ex_data_dir = [ex_cohort_industrial, ex_cohort_hvac, ex_cohort_ev]"
    by (simp add: load_cohorts_def ex_data_dir_def)
  have p: "predicted_mw ex_allocation_ev = 5 / 2" "predicted_mw ex_allocation_hvac = 0"
    by (simp_all add: ex_allocation_ev_def ex_allocation_hvac_def)
  show ?thesis
    unfolding create_plan_def Let_def c
    by (simp add: analyze_situation_ex score_cohorts_ex ex_target allocate_mw_ex_75
        confidence_ex ex_constraints p ex_plan_def)
qed

section \<open>The claims\<close>

text \<open>
  Claim C1. When the grid files are missing, \<^verbatim>\<open>_load_ercot_data\<close> returns a dictionary
  with an \<^verbatim>\<open>error\<close> key and no \<^verbatim>\<open>snapshot\<close> key. The claim asks for a
  distinguishable "no grid data" outcome and then for an explicit target. The code does
  neither: \<^verbatim>\<open>_analyze_situation\<close> indexes \<^verbatim>\<open>ercot_data["snapshot"]\<close>, so
  \<^verbatim>\<open>create_plan\<close> raises \<^verbatim>\<open>KeyError\<close>, whatever the target argument is.
\<close>

theorem create_plan_without_grid_data:
  "error_key (load_ercot_data \<lparr>current_snapshot_json = None, forecast_24h_json = fj, cohorts_json = cj\<rparr>)
     = Some ''ERCOT data not available'' \<and>
   create_plan \<lparr>current_snapshot_json = None, forecast_24h_json = fj, cohorts_json = cj\<rparr>
     now window_start window_end strategy target_mw_arg selected_cohorts = Inl (KeyError ''snapshot'') \<and>
   create_plan \<lparr>current_snapshot_json = sj, forecast_24h_json = None, cohorts_json = cj\<rparr>
     now window_start window_end strategy target_mw_arg selected_cohorts = Inl (KeyError ''snapshot'')"
  by (simp add: create_plan_def load_ercot_data_def analyze_situation_def Let_def split: option.splits)

text \<open>
  Claim C2. For every scored-cohort list, every total target MW that is at least 0 and
  every strategy, the sum of \<open>target_mw\<close> over the allocations returned by the
  allocator exceeds the target at most by the error of rounding each allocation to two
  decimals, which is 0.005 per allocation.
\<close>

theorem allocate_mw_sum_within_target:
  assumes "0 \<le> target"
  shows "sum_list (map target_mw (allocate_mw scored target strategy)) \<le>
           target + 0.005 * real (length (allocate_mw scored target strategy))"
  using sum_target_bound [of 0 target scored strategy] assms
  by (simp add: allocate_mw_def)

theorem allocate_mw_sum_within_target_witness:
  "(0 :: real) \<le> 50 \<and>
   sum_list (map target_mw (allocate_mw [ex_scored_ev, ex_scored_hvac] 50 BALANCED)) = 5 \<and>
   sum_list (map target_mw (allocate_mw [ex_scored_ev, ex_scored_hvac] 50 BALANCED)) \<le>
     50 + 0.005 * real (length (allocate_mw [ex_scored_ev, ex_scored_hvac] 50 BALANCED))"
  using allocate_mw_sum_within_target [of 50 "[ex_scored_ev, ex_scored_hvac]" BALANCED]
  by (simp add: allocate_mw_ex ex_allocation_ev_def ex_allocation_hvac_def)

text \<open>
  Claim C3, as stated: with the acceptance rate in [0,1], every allocation's
  \<open>predicted_mw\<close> is at most its \<open>target_mw\<close>. It fails for a cohort whose
  flexible load is negative: the scorer gives it a negative available MW, the allocator
  allocates that negative amount, and multiplying by a rate below 1 moves it towards 0.
\<close>

theorem predicted_exceeds_target_counterexample:
  "0 \<le> baseline_acceptance_rate ex_cohort_negative \<and>
   baseline_acceptance_rate ex_cohort_negative \<le> 1 \<and>
   allocate_mw [score_cohort ex_cohort_negative ex_window_start ex_window_end BALANCED] 50 BALANCED
     = [ex_allocation_negative] \<and>
   target_mw ex_allocation_negative = - 10 \<and>
   predicted_mw ex_allocation_negative = - 5 \<and>
   \<not> predicted_mw ex_allocation_negative \<le> target_mw ex_allocation_negative"
  by (simp add: score_ex_negative allocate_mw_ex_negative)
    (simp add: ex_cohort_negative_def ex_allocation_negative_def)

text \<open>
  Claim C3, amended: an allocation whose own cohort has its acceptance rate in [0,1]
  and an available MW of at least 0 has a \<open>predicted_mw\<close> that is at most its
  \<open>target_mw\<close>, both rounded to two decimals, whatever the other cohorts of the list
  are. The allocation at position \<open>i\<close> is the one of the scored cohort at position
  \<open>i\<close>.
\<close>

theorem predicted_le_target_mw:
  assumes "i < length (allocate_mw scored target strategy)"
    and "0 \<le> baseline_acceptance_rate (cohort (scored ! i))"
    and "baseline_acceptance_rate (cohort (scored ! i)) \<le> 1"
    and "0 \<le> available_mw (scored ! i)"
  shows "i < length scored \<and>
         cohort_id (allocate_mw scored target strategy ! i) = id_field (cohort (scored ! i)) \<and>
         predicted_mw (allocate_mw scored target strategy ! i)
           \<le> target_mw (allocate_mw scored target strategy ! i)"
proof -
  have pos: "0 < target"
    using assms(1) by (rule allocations_target_pos)
  from assms(1) have "i < length (fst (allocate_loop scored target strategy ([], 0)))"
    by (simp add: allocate_mw_def)
  from allocs_from_nth [OF this] obtain a' where
    len: "i < length scored" and a': "a' < target" and
    nth: "allocate_mw scored target strategy ! i =
       make_allocation (scored ! i) (allocate_amount (scored ! i) target strategy a')"
    by (auto simp: allocate_mw_def)
  let ?al = "allocate_amount (scored ! i) target strategy a'"
  have nn: "0 \<le> ?al"
    using assms(4) pos a' by (rule allocate_amount_nonneg_pos)
  have "?al * baseline_acceptance_rate (cohort (scored ! i)) \<le> ?al"
    using nn assms(2,3) by (simp add: mult_left_le)
  then have "py_round (?al * baseline_acceptance_rate (cohort (scored ! i))) 2 \<le> py_round ?al 2"
    by (rule py_round_mono)
  then show ?thesis
    using len
    by (simp add: nth target_mw_make_allocation predicted_mw_make_allocation
        cohort_id_make_allocation)
qed

theorem predicted_le_target_mw_witness:
  "(0 :: nat) < length (allocate_mw [ex_scored_ev, ex_scored_negative] 50 BALANCED) \<and>
   0 \<le> baseline_acceptance_rate (cohort ([ex_scored_ev, ex_scored_negative] ! 0)) \<and>
   baseline_acceptance_rate (cohort ([ex_scored_ev, ex_scored_negative] ! 0)) \<le> 1 \<and>
   0 \<le> available_mw ([ex_scored_ev, ex_scored_negative] ! 0) \<and>
   allocate_mw [ex_scored_ev, ex_scored_negative] 50 BALANCED ! 0 = ex_allocation_ev \<and>
   predicted_mw ex_allocation_ev = 2.5 \<and> target_mw ex_allocation_ev = 5 \<and>
   predicted_mw (allocate_mw [ex_scored_ev, ex_scored_negative] 50 BALANCED ! 0)
     \<le> target_mw (allocate_mw [ex_scored_ev, ex_scored_negative] 50 BALANCED ! 0)"
proof -
  have h1: "0 < length (allocate_mw [ex_scored_ev, ex_scored_negative] 50 BALANCED)"
    by (simp add: allocate_mw_ex_mixed)
  have h2: "0 \<le> baseline_acceptance_rate (cohort ([ex_scored_ev, ex_scored_negative] ! 0))"
    by (simp add: ex_scored_ev_def ex_cohort_ev_def)
  have h3: "baseline_acceptance_rate (cohort ([ex_scored_ev, ex_scored_negative] ! 0)) \<le> 1"
    by (simp add: ex_scored_ev_def ex_cohort_ev_def)
  have h4: "0 \<le> available_mw ([ex_scored_ev, ex_scored_negative] ! 0)"
    by (simp add: ex_scored_ev_def)
  have e: "allocate_mw [ex_scored_ev, ex_scored_negative] 50 BALANCED ! 0 = ex_allocation_ev"
    by (simp add: allocate_mw_ex_mixed)
  have v: "predicted_mw ex_allocation_ev = 2.5 \<and> target_mw ex_allocation_ev = 5"
    by (simp add: ex_allocation_ev_def)
  show ?thesis
    using h1 h2 h3 h4 e v predicted_le_target_mw [OF h1 h2 h3 h4] by blast
qed

text \<open>
  Claim C4. The confidence estimator returns a value in [0,1] with three decimals. For a
  non-empty allocation list it is the specification's clamped blend (base 0.70, plus
  0.10 under low stress, minus 0.10 under critical stress, blended 0.7 to 0.3 with the
  mean acceptance probability) rounded to three decimals: within 0.0005 of it, whichever
  neighbour a decimal tie goes to. For the empty list it is 0; and when every acceptance
  probability is in [0,1], it is 0 exactly when there is no allocation.
\<close>

theorem calculate_confidence_correct:
  "0 \<le> calculate_confidence allocations sit \<and>
   calculate_confidence allocations sit \<le> 1 \<and>
   (\<exists>k :: int. calculate_confidence allocations sit = of_int k / 1000) \<and>
   (allocations \<noteq> [] \<longrightarrow>
      \<bar>calculate_confidence allocations sit -
         confidence_blend (map acceptance_probability allocations) (stress_level sit)\<bar>
        \<le> 0.0005) \<and>
   (allocations = [] \<longrightarrow> calculate_confidence allocations sit = 0) \<and>
   ((\<forall>a \<in> set allocations. 0 \<le> acceptance_probability a \<and> acceptance_probability a \<le> 1) \<longrightarrow>
      (calculate_confidence allocations sit = 0 \<longleftrightarrow> allocations = []))"
proof -
  have iff: "calculate_confidence allocations sit = 0 \<longleftrightarrow> allocations = []"
    if "\<forall>a \<in> set allocations. 0 \<le> acceptance_probability a \<and> acceptance_probability a \<le> 1"
  proof
    assume z: "calculate_confidence allocations sit = 0"
    show "allocations = []"
    proof (rule ccontr)
      assume "allocations \<noteq> []"
      then have "0 < calculate_confidence allocations sit"
        using that by (intro confidence_positive) auto
      with z show False by simp
    qed
  next
    assume "allocations = []"
    then show "calculate_confidence allocations sit = 0"
      by (simp add: calculate_confidence_def)
  qed
  have close: "\<bar>calculate_confidence allocations sit -
         confidence_blend (map acceptance_probability allocations) (stress_level sit)\<bar>
        \<le> 0.0005" if "allocations \<noteq> []"
    using py_round_close
      [of "confidence_blend (map acceptance_probability allocations) (stress_level sit)"]
    by (simp add: calculate_confidence_blend [OF that])
  have empty: "calculate_confidence allocations sit = 0" if "allocations = []"
    using that by (simp add: calculate_confidence_def)
  show ?thesis
    using confidence_range [of allocations sit] confidence_decimal [of allocations sit]
      iff close empty
    by blast
qed

theorem calculate_confidence_correct_witness:
  "0 \<le> acceptance_probability ex_allocation_ev \<and> acceptance_probability ex_allocation_ev \<le> 1 \<and>
   0 \<le> acceptance_probability ex_allocation_hvac \<and> acceptance_probability ex_allocation_hvac \<le> 1 \<and>
   [ex_allocation_ev, ex_allocation_hvac] \<noteq> [] \<and>
   calculate_confidence [ex_allocation_ev, ex_allocation_hvac] ex_situation = 0.565 \<and>
   confidence_blend (map acceptance_probability [ex_allocation_ev, ex_allocation_hvac])
     (stress_level ex_situation) = 0.565 \<and>
   \<bar>calculate_confidence [ex_allocation_ev, ex_allocation_hvac] ex_situation -
      confidence_blend (map acceptance_probability [ex_allocation_ev, ex_allocation_hvac])
        (stress_level ex_situation)\<bar> \<le> 0.0005 \<and>
   calculate_confidence [ex_allocation_ev, ex_allocation_hvac] ex_situation \<noteq> 0 \<and>
   calculate_confidence [] ex_situation = 0"
proof -
  have h: "\<forall>a \<in> set [ex_allocation_ev, ex_allocation_hvac].
             0 \<le> acceptance_probability a \<and> acceptance_probability a \<le> 1"
    by (simp add: ex_allocation_ev_def ex_allocation_hvac_def)
  have p: "0 \<le> acceptance_probability ex_allocation_ev \<and>
      acceptance_probability ex_allocation_ev \<le> 1 \<and>
      0 \<le> acceptance_probability ex_allocation_hvac \<and>
      acceptance_probability ex_allocation_hvac \<le> 1"
    by (simp add: ex_allocation_ev_def ex_allocation_hvac_def)
  have n: "[ex_allocation_ev, ex_allocation_hvac] \<noteq> []" by simp
  note inst = calculate_confidence_correct [of "[ex_allocation_ev, ex_allocation_hvac]" ex_situation]
  have nz: "calculate_confidence [ex_allocation_ev, ex_allocation_hvac] ex_situation \<noteq> 0"
    using inst h by blast
  have z: "calculate_confidence [] ex_situation = 0"
    using calculate_confidence_correct [of "[]" ex_situation] by blast
  have c: "\<bar>calculate_confidence [ex_allocation_ev, ex_allocation_hvac] ex_situation -
      confidence_blend (map acceptance_probability [ex_allocation_ev, ex_allocation_hvac])
        (stress_level ex_situation)\<bar> \<le> 0.0005"
    using inst n by blast
  show ?thesis
    using p n confidence_ex confidence_blend_ex c nz z by blast
qed

text \<open>
  Claim C5. A cohort whose \<open>min_notice_hours\<close> exceeds the hours between the clock
  reading and the window start is in no scored list the scorer returns, whatever the
  cohort list, window end, strategy and situation; and for an aware window start the
  scorer does return a list. The witness is the cohort that needs 48 hours with a
  window starting in 2 hours.
\<close>

theorem short_notice_cohort_never_scored:
  assumes "(epoch_seconds window_start - now) / 3600 < min_notice_hours c"
  shows "(\<forall>scored. score_cohorts cohorts window_start window_end strategy sit now = Inr scored
            \<longrightarrow> c \<notin> cohort ` set scored) \<and>
         (tz_aware window_start \<longrightarrow>
            (\<exists>scored. score_cohorts cohorts window_start window_end strategy sit now = Inr scored))"
proof (intro conjI allI impI)
  fix scored
  assume "score_cohorts cohorts window_start window_end strategy sit now = Inr scored"
  from score_cohorts_cohorts [OF this] assms show "c \<notin> cohort ` set scored"
    by simp
next
  assume "tz_aware window_start"
  then show "\<exists>scored. score_cohorts cohorts window_start window_end strategy sit now = Inr scored"
    by (rule score_cohorts_aware)
qed

theorem short_notice_cohort_never_scored_witness:
  "(epoch_seconds ex_window_start - 0) / 3600 = 2 \<and>
   min_notice_hours ex_cohort_industrial = 48 \<and>
   (epoch_seconds ex_window_start - 0) / 3600 < min_notice_hours ex_cohort_industrial \<and>
   tz_aware ex_window_start \<and>
   score_cohorts [ex_cohort_industrial, ex_cohort_hvac, ex_cohort_ev]
     ex_window_start ex_window_end BALANCED ex_situation 0 = Inr [ex_scored_ev, ex_scored_hvac] \<and>
   ex_cohort_industrial \<notin> cohort ` set [ex_scored_ev, ex_scored_hvac]"
proof -
  have h: "(epoch_seconds ex_window_start - 0) / 3600 < min_notice_hours ex_cohort_industrial"
    by (simp add: ex_window_start_def ex_cohort_industrial_def)
  have "ex_cohort_industrial \<notin> cohort ` set [ex_scored_ev, ex_scored_hvac]"
    using short_notice_cohort_never_scored [OF h,
        of "[ex_cohort_industrial, ex_cohort_hvac, ex_cohort_ev]" ex_window_end BALANCED ex_situation]
    by (simp only: score_cohorts_ex) blast
  then show ?thesis
    using h by (simp add: score_cohorts_ex) (simp add: ex_window_start_def ex_cohort_industrial_def)
qed

text \<open>
  Claim C6. The derived target, with the base of 50 MW: 150 for emergency whatever the
  stress level; 125, 100 or 75 for reliability under critical, high or other stress;
  100, 75 or 50 for cost_minimize with a price above 100, above 50 or otherwise; 75 for
  balanced. A plan made without an explicit target carries this value.
\<close>

theorem derived_target_mw_table:
  "calculate_target_mw sit EMERGENCY = 150 \<and>
   calculate_target_mw sit RELIABILITY =
     (if stress_level sit = ''critical'' then 125
      else if stress_level sit = ''high'' then 100 else 75) \<and>
   calculate_target_mw sit COST_MINIMIZE =
     (if current_price sit > 100 then 100 else if current_price sit > 50 then 75 else 50) \<and>
   calculate_target_mw sit BALANCED = 75 \<and>
   (\<forall>p. create_plan d now window_start window_end strategy None selected_cohorts = Inr p \<longrightarrow>
      target_mw_total p = calculate_target_mw (situation_summary p) strategy)"
  by (simp add: calculate_target_mw_def Let_def create_plan_derived_target)

theorem derived_target_mw_table_witness:
  "calculate_target_mw ex_situation EMERGENCY = 150 \<and>
   calculate_target_mw ex_situation RELIABILITY = 100 \<and>
   calculate_target_mw ex_situation COST_MINIMIZE = 75 \<and>
   calculate_target_mw ex_situation BALANCED = 75 \<and>
   create_plan ex_data_dir 0 ex_window_start ex_window_end BALANCED None None = Inr ex_plan \<and>
   situation_summary ex_plan = ex_situation \<and>
   target_mw_total ex_plan = 75"
proof -
  have "target_mw_total ex_plan = calculate_target_mw (situation_summary ex_plan) BALANCED"
    using derived_target_mw_table
      [of ex_situation ex_data_dir 0 ex_window_start ex_window_end BALANCED None]
    by (simp add: create_plan_ex)
  moreover have "situation_summary ex_plan = ex_situation"
    by (simp add: ex_plan_def)
  ultimately show ?thesis
    using derived_target_mw_table
      [of ex_situation ex_data_dir 0 ex_window_start ex_window_end BALANCED None]
    by (simp add: create_plan_ex) (simp add: ex_situation_def)
qed

text \<open>
  Claim C7. Under the balanced strategy no allocation's \<open>target_mw\<close> exceeds 30% of
  the total target by more than the two-decimal rounding of the stored value, which is
  0.005.
\<close>

theorem balanced_allocation_cap:
  assumes "a \<in> set (allocate_mw scored target BALANCED)"
  shows "target_mw a \<le> target * 0.3 + 0.005"
proof -
  have "target_mw a \<le> py_round (target * 0.3) 2"
    using assms balanced_cap [of a scored target 0] by (simp add: allocate_mw_def)
  moreover have "py_round (target * 0.3) 2 \<le> target * 0.3 + 0.005"
    using py_round_upper [of "target * 0.3" 2] by simp
  ultimately show ?thesis by linarith
qed

theorem balanced_allocation_cap_witness:
  "ex_allocation_ev \<in> set (allocate_mw [ex_scored_ev, ex_scored_hvac] 50 BALANCED) \<and>
   target_mw ex_allocation_ev = 5 \<and>
   target_mw ex_allocation_ev \<le> 50 * 0.3 + 0.005"
proof -
  have m: "ex_allocation_ev \<in> set (allocate_mw [ex_scored_ev, ex_scored_hvac] 50 BALANCED)"
    by (simp add: allocate_mw_ex)
  show ?thesis
    using m balanced_allocation_cap [OF m] by (simp add: ex_allocation_ev_def)
qed

text \<open>
  Claim C8. The stress classification is monotonic: when the reserves of a second
  snapshot are no higher and its load no lower than those of a first one (missing
  fields read as their defaults), the severity of the second is no lower, in the order
  low < moderate < high < critical; and the classification is always one of these four.
\<close>

theorem stress_level_monotonic:
  assumes "dict_get snap2 ''reserves_mw'' 15000 \<le> dict_get snap1 ''reserves_mw'' 15000"
    and "dict_get snap1 ''system_load_mw'' 65000 \<le> dict_get snap2 ''system_load_mw'' 65000"
  shows "severity (calculate_stress_level snap1 fc1) \<le> severity (calculate_stress_level snap2 fc2) \<and>
         calculate_stress_level snap1 fc1 \<in> {''low'', ''moderate'', ''high'', ''critical''} \<and>
         calculate_stress_level snap2 fc2 \<in> {''low'', ''moderate'', ''high'', ''critical''}"
proof -
  have "severity (calculate_stress_level snap1 fc1) \<le> severity (calculate_stress_level snap2 fc2)"
    using assms unfolding severity_cascade Let_def by auto
  then show ?thesis
    using stress_level_values [of snap1 fc1] stress_level_values [of snap2 fc2] by blast
qed

theorem stress_level_monotonic_witness:
  "dict_get ex_snapshot ''reserves_mw'' 15000 \<le> dict_get ex_snapshot_calm ''reserves_mw'' 15000 \<and>
   dict_get ex_snapshot_calm ''system_load_mw'' 65000 \<le> dict_get ex_snapshot ''system_load_mw'' 65000 \<and>
   calculate_stress_level ex_snapshot_calm ex_forecast = ''low'' \<and>
   calculate_stress_level ex_snapshot ex_forecast = ''high'' \<and>
   severity (calculate_stress_level ex_snapshot_calm ex_forecast)
     \<le> severity (calculate_stress_level ex_snapshot ex_forecast)"
proof -
  have r: "dict_get ex_snapshot ''reserves_mw'' 15000 \<le> dict_get ex_snapshot_calm ''reserves_mw'' 15000"
    by (simp add: dict_get_def ex_snapshot_def ex_snapshot_calm_def)
  have l: "dict_get ex_snapshot_calm ''system_load_mw'' 65000 \<le> dict_get ex_snapshot ''system_load_mw'' 65000"
    by (simp add: dict_get_def ex_snapshot_def ex_snapshot_calm_def)
  show ?thesis
    using r l stress_level_monotonic [OF r l, of ex_forecast ex_forecast]
    by (simp add: ex_stress ex_stress_calm)
qed

text \<open>
  Claim C9. When the grid data has a snapshot and a forecast, the analyzer returns a
  situation whose \<open>window_overlaps_peak\<close> holds exactly when the forecast peak hour
  lies between the hours of the window start and the window end, both included; for
  peak hour 18 and a window from 17:00 to 19:00 it holds.
\<close>

theorem window_overlaps_peak_iff:
  assumes "snapshot e = Some snap" and "forecast e = Some fc"
  shows "\<exists>sit. analyze_situation e window_start window_end = Inr sit \<and>
           forecast_peak_hour sit = dict_get fc ''peak_hour'' 17 \<and>
           (window_overlaps_peak sit \<longleftrightarrow>
              of_int (hour window_start) \<le> forecast_peak_hour sit \<and>
              forecast_peak_hour sit \<le> of_int (hour window_end)) \<and>
           (forecast_peak_hour sit = 18 \<and> hour window_start = 17 \<and> hour window_end = 19
              \<longrightarrow> window_overlaps_peak sit)"
  using assms by (simp add: analyze_situation_def)

theorem window_overlaps_peak_iff_witness:
  "snapshot (load_ercot_data ex_data_dir) = Some ex_snapshot \<and>
   forecast (load_ercot_data ex_data_dir) = Some ex_forecast \<and>
   analyze_situation (load_ercot_data ex_data_dir) ex_window_start ex_window_end = Inr ex_situation \<and>
   forecast_peak_hour ex_situation = 18 \<and> hour ex_window_start = 17 \<and> hour ex_window_end = 19 \<and>
   window_overlaps_peak ex_situation"
proof -
  have s: "snapshot (load_ercot_data ex_data_dir) = Some ex_snapshot"
    by (simp add: load_ercot_data_def ex_data_dir_def)
  have f: "forecast (load_ercot_data ex_data_dir) = Some ex_forecast"
    by (simp add: load_ercot_data_def ex_data_dir_def)
  have h: "forecast_peak_hour ex_situation = 18 \<and> hour ex_window_start = 17 \<and> hour ex_window_end = 19"
    by (simp add: ex_situation_def ex_window_start_def ex_window_end_def)
  from window_overlaps_peak_iff [OF s f, of ex_window_start ex_window_end]
  have "window_overlaps_peak ex_situation"
    using h by (simp add: analyze_situation_ex)
  then show ?thesis using s f h by (simp add: analyze_situation_ex)
qed

text \<open>
  Claim C10. A scored cohort whose available MW is 0, reached while the running total
  is still below the target, gets an allocation entry with \<open>target_mw\<close> 0 and
  \<open>predicted_mw\<close> 0, at its own position in the result. A cohort with no peak hour in
  the window is scored with an available MW of 0, and there are results with more
  entries than entries that contribute MW: in the example two entries, one of them
  contributing none.
\<close>

theorem zero_available_cohort_gets_entry:
  assumes "snd (allocate_loop pre target strategy ([], 0)) < target"
    and "available_mw sc = 0"
  shows "length pre < length (allocate_mw (pre @ sc # post) target strategy) \<and>
         allocate_mw (pre @ sc # post) target strategy ! length pre = make_allocation sc 0 \<and>
         cohort_id (make_allocation sc 0) = id_field (cohort sc) \<and>
         target_mw (make_allocation sc 0) = 0 \<and>
         predicted_mw (make_allocation sc 0) = 0 \<and>
         (set [hour ws .. hour we] \<inter> set (peak_hours c) = {} \<longrightarrow>
            available_mw (score_cohort c ws we st) = 0) \<and>
         (\<exists>scored t s. length (filter (\<lambda>a. target_mw a \<noteq> 0) (allocate_mw scored t s))
                          < length (allocate_mw scored t s))"
proof -
  obtain as a where pre: "allocate_loop pre target strategy ([], 0) = (as, a)"
    by (cases "allocate_loop pre target strategy ([], 0)")
  from assms(1) have a: "a < target" by (simp add: pre)
  have len: "length as = length pre"
    using allocate_loop_no_break [of pre target strategy "[]" 0] assms(1) by (simp add: pre)
  have pos: "0 < target"
    using assms(1) by (rule running_total_below_target_pos)
  have z: "allocate_amount sc target strategy a = 0"
    using assms(2) pos a by (rule allocate_amount_zero)
  have "allocate_mw (pre @ sc # post) target strategy =
        fst (allocate_loop post target strategy (as @ [make_allocation sc 0], a))"
    using a z by (simp add: allocate_mw_def allocate_loop_append pre allocate_loop_step)
  also have "\<dots> = (as @ [make_allocation sc 0]) @ fst (allocate_loop post target strategy ([], a))"
    by (rule allocate_loop_fst)
  finally have eq: "allocate_mw (pre @ sc # post) target strategy =
      as @ make_allocation sc 0 # fst (allocate_loop post target strategy ([], a))"
    by simp
  have 1: "length pre < length (allocate_mw (pre @ sc # post) target strategy)"
    by (simp add: eq len)
  have 2: "allocate_mw (pre @ sc # post) target strategy ! length pre = make_allocation sc 0"
    by (simp add: eq len [symmetric])
  have 3: "cohort_id (make_allocation sc 0) = id_field (cohort sc) \<and>
         target_mw (make_allocation sc 0) = 0 \<and> predicted_mw (make_allocation sc 0) = 0"
    by (simp add: make_allocation_def Let_def py_round_zero)
  have "length (filter (\<lambda>a. target_mw a \<noteq> 0) (allocate_mw [ex_scored_ev, ex_scored_hvac] 50 BALANCED))
          < length (allocate_mw [ex_scored_ev, ex_scored_hvac] 50 BALANCED)"
    by (simp add: allocate_mw_ex) (simp add: ex_allocation_ev_def ex_allocation_hvac_def)
  then have 4: "\<exists>scored t s. length (filter (\<lambda>a. target_mw a \<noteq> 0) (allocate_mw scored t s))
                          < length (allocate_mw scored t s)"
    by blast
  show ?thesis
    using 1 2 3 4 zero_peak_alignment_available [of ws we c st] by blast
qed

theorem zero_available_cohort_gets_entry_witness:
  "snd (allocate_loop [ex_scored_ev] 50 BALANCED ([], 0)) < 50 \<and>
   set [hour ex_window_start .. hour ex_window_end] \<inter> set (peak_hours ex_cohort_hvac) = {} \<and>
   score_cohort ex_cohort_hvac ex_window_start ex_window_end BALANCED = ex_scored_hvac \<and>
   available_mw ex_scored_hvac = 0 \<and>
   allocate_mw ([ex_scored_ev] @ ex_scored_hvac # []) 50 BALANCED
     = [ex_allocation_ev, ex_allocation_hvac] \<and>
   make_allocation ex_scored_hvac 0 = ex_allocation_hvac \<and>
   target_mw ex_allocation_hvac = 0 \<and> predicted_mw ex_allocation_hvac = 0 \<and>
   length (allocate_mw ([ex_scored_ev] @ ex_scored_hvac # []) 50 BALANCED) = 2 \<and>
   length (filter (\<lambda>a. target_mw a \<noteq> 0)
             (allocate_mw ([ex_scored_ev] @ ex_scored_hvac # []) 50 BALANCED)) = 1"
proof -
  have h1: "snd (allocate_loop [ex_scored_ev] 50 BALANCED ([], 0)) < 50"
    by (simp add: running_total_ex)
  have h3: "set [hour ex_window_start .. hour ex_window_end] \<inter> set (peak_hours ex_cohort_hvac) = {}"
    by (simp add: ex_window_start_def ex_window_end_def ex_cohort_hvac_def ex_window_hours)
  have h2: "available_mw ex_scored_hvac = 0"
    by (simp add: ex_scored_hvac_def)
  have "make_allocation ex_scored_hvac 0 = ex_allocation_hvac"
    using zero_available_cohort_gets_entry [OF h1 h2, of "[]"]
    by (simp add: allocate_mw_ex)
  then show ?thesis
    using h1 h2 h3 by (simp add: allocate_mw_ex score_ex_hvac)
      (simp add: ex_allocation_ev_def ex_allocation_hvac_def)
qed

end
